theory Spec2Isabelle
  imports Main "HOL-Library.Sublist"
begin

section \<open>JavaScript string primitives used by the extension\<close>

text \<open>
  A JavaScript string is modelled as a \<open>string\<close>; a \<open>char\<close> stands for a UTF-16 code
  unit below 256, so the Unicode spaces above that range are outside the model.
  \<open>isWhiteSpace\<close> is the class \<open>\s\<close> of a regular expression, which is also the set
  of characters removed by \<open>String.prototype.trim\<close>: TAB, LF, VT, FF, CR, SPACE, NBSP.
  \<open>isLineTerminator\<close> is the set of characters that \<open>.\<close> does not match.
\<close>

definition isWhiteSpace :: "char \<Rightarrow> bool" where
  "isWhiteSpace c =
     (c \<in> set [CHR 0x09, CHR 0x0A, CHR 0x0B, CHR 0x0C, CHR 0x0D, CHR 0x20, CHR 0xA0])"

definition isLineTerminator :: "char \<Rightarrow> bool" where
  "isLineTerminator c = (c \<in> set [CHR 0x0A, CHR 0x0D])"

definition isDigit :: "char \<Rightarrow> bool" where
  "isDigit c = (c \<in> set ''0123456789'')"

definition str_trim :: "string \<Rightarrow> string" where
  "str_trim s = rev (dropWhile isWhiteSpace (rev (dropWhile isWhiteSpace s)))"

definition str_startsWith :: "string \<Rightarrow> string \<Rightarrow> bool" where
  "str_startsWith s p = (take (length p) s = p)"

definition str_endsWith :: "string \<Rightarrow> string \<Rightarrow> bool" where
  "str_endsWith s p = (length p \<le> length s \<and> drop (length s - length p) s = p)"

fun str_includes :: "string \<Rightarrow> string \<Rightarrow> bool" where
  "str_includes [] p = (p = [])"
| "str_includes (c # cs) p = (if str_startsWith (c # cs) p then True else str_includes cs p)"

text \<open>\<open>s.split(sep)\<close> for a one-character separator: never the empty list.\<close>

fun str_split :: "char \<Rightarrow> string \<Rightarrow> string list" where
  "str_split sep [] = [[]]"
| "str_split sep (c # cs) =
     (if c = sep then [] # str_split sep cs
      else (case str_split sep cs of [] \<Rightarrow> [[c]] | l # ls \<Rightarrow> (c # l) # ls))"

fun str_join :: "string \<Rightarrow> string list \<Rightarrow> string" where
  "str_join sep [] = []"
| "str_join sep [x] = x"
| "str_join sep (x # y # ys) = x @ sep @ str_join sep (y # ys)"

text \<open>\<open>parseInt\<close> on a string of decimal digits (the only strings group 1 can hold).\<close>

definition digitValue :: "char \<Rightarrow> nat" where
  "digitValue c = of_char c - 48"

definition parseInt :: "string \<Rightarrow> nat" where
  "parseInt ds = foldl (\<lambda>a c. 10 * a + digitValue c) 0 ds"

definition digitChar :: "nat \<Rightarrow> char" where
  "digitChar d = ''0123456789'' ! d"

text \<open>The decimal rendering of a count inside a template literal.\<close>

fun showNat :: "nat \<Rightarrow> string" where
  "showNat n = (if n < 10 then [digitChar n] else showNat (n div 10) @ [digitChar (n mod 10)])"

declare showNat.simps [simp del]

section \<open>The two regular expressions of the report scanner\<close>

text \<open>
  \<open>line.match(/^\s*(\d+)\s+(.+)$/)\<close>, as the backtracking matcher runs it. \<open>\s*\<close> and
  \<open>\d+\<close> are greedy and can give nothing back: the element after \<open>\s*\<close> needs a digit
  and the one after \<open>\d+\<close> needs a white space, so each takes its maximal run. \<open>\s+\<close>
  first takes the whole run of white space and then gives characters back one at a
  time (never the first) until \<open>(.+)\<close>, which has to reach the end of the line,
  is non-empty and free of line terminators. The result is the pair of groups 1 and 2.
\<close>

fun errorMatch_rest :: "nat \<Rightarrow> string \<Rightarrow> string option" where
  "errorMatch_rest 0 s = None"
| "errorMatch_rest (Suc k) s =
     (let g2 = drop (Suc k) s in
      if g2 \<noteq> [] \<and> \<not> list_ex isLineTerminator g2 then Some g2 else errorMatch_rest k s)"

definition errorMatch :: "string \<Rightarrow> (string \<times> string) option" where
  "errorMatch line =
     (let s1 = dropWhile isWhiteSpace line;
          g1 = takeWhile isDigit s1;
          s2 = dropWhile isDigit s1
      in if g1 = [] then None
         else (case errorMatch_rest (length (takeWhile isWhiteSpace s2)) s2 of
                 None \<Rightarrow> None
               | Some g2 \<Rightarrow> Some (g1, g2)))"

text \<open>
  \<open>line.match(/([^\s]+\.php)/)\<close>: the first start position, from the left, at which
  the pattern matches. At a start position \<open>[^\s]+\<close> takes the maximal run of
  non-space characters and gives them back one at a time until \<open>.php\<close> follows.
  The result is group 1.
\<close>

fun fileMatch_at :: "nat \<Rightarrow> string \<Rightarrow> string option" where
  "fileMatch_at 0 s = None"
| "fileMatch_at (Suc k) s =
     (if take 4 (drop (Suc k) s) = ''.php'' then Some (take (Suc k + 4) s)
      else fileMatch_at k s)"

fun fileMatch :: "string \<Rightarrow> string option" where
  "fileMatch [] = None"
| "fileMatch (c # cs) =
     (case fileMatch_at (length (takeWhile (\<lambda>x. \<not> isWhiteSpace x) (c # cs))) (c # cs) of
        Some t \<Rightarrow> Some t
      | None \<Rightarrow> fileMatch cs)"

section \<open>Node's \<open>path\<close> module, POSIX flavour\<close>

text \<open>
  \<open>path.isAbsolute\<close>, \<open>path.basename\<close>, \<open>path.join\<close>, \<open>path.resolve\<close> and
  \<open>path.relative\<close> belong to the platform, not to the repository. They are modelled
  here as Node's \<open>path.posix\<close> computes them, at the level of path segments:
  \<open>normalizeString\<close> drops empty and \<open>.\<close> segments and resolves \<open>..\<close> against the
  segment before it. The host is taken to be a POSIX system.
\<close>

definition normalizeString_segment :: "bool \<Rightarrow> string list \<Rightarrow> string \<Rightarrow> string list" where
  "normalizeString_segment allowAboveRoot res seg =
     (if seg = [] then res
      else if seg = ''.'' then res
      else if seg = ''..'' then
        (if res \<noteq> [] \<and> last res \<noteq> ''..'' then butlast res
         else if allowAboveRoot then res @ [''..'']
         else res)
      else res @ [seg])"

definition normalizeString :: "string \<Rightarrow> bool \<Rightarrow> string" where
  "normalizeString p allowAboveRoot =
     str_join ''/'' (foldl (normalizeString_segment allowAboveRoot) [] (str_split CHR ''/'' p))"

definition posix_isAbsolute :: "string \<Rightarrow> bool" where
  "posix_isAbsolute p = (case p of [] \<Rightarrow> False | c # _ \<Rightarrow> c = CHR ''/'')"

definition posix_normalize :: "string \<Rightarrow> string" where
  "posix_normalize p =
     (if p = [] then ''.''
      else let isAbsolute = posix_isAbsolute p;
               trailingSeparator = (last p = CHR ''/'');
               n = normalizeString p (\<not> isAbsolute)
           in if n = [] then (if isAbsolute then ''/'' else if trailingSeparator then ''./'' else ''.'')
              else (if isAbsolute then ''/'' else []) @ n @ (if trailingSeparator then ''/'' else []))"

definition posix_join :: "string list \<Rightarrow> string" where
  "posix_join args =
     (let joined = str_join ''/'' (filter (\<lambda>a. a \<noteq> []) args)
      in if joined = [] then ''.'' else posix_normalize joined)"

text \<open>
  \<open>path.resolve\<close> walks its arguments from the right, then the working directory of
  the process, until the path built so far is absolute.
\<close>

fun resolve_prepend :: "string list \<Rightarrow> string \<Rightarrow> string \<times> bool" where
  "resolve_prepend [] resolvedPath = (resolvedPath, False)"
| "resolve_prepend (p # ps) resolvedPath =
     (if p = [] then resolve_prepend ps resolvedPath
      else if posix_isAbsolute p then (p @ ''/'' @ resolvedPath, True)
      else resolve_prepend ps (p @ ''/'' @ resolvedPath))"

definition posix_resolve :: "string \<Rightarrow> string list \<Rightarrow> string" where
  "posix_resolve cwd args =
     (case resolve_prepend (rev args @ [cwd]) [] of
        (resolvedPath, resolvedAbsolute) \<Rightarrow>
          (let n = normalizeString resolvedPath (\<not> resolvedAbsolute)
           in if resolvedAbsolute then CHR ''/'' # n
              else if n \<noteq> [] then n else ''.''))"

definition pathSegments :: "string \<Rightarrow> string list" where
  "pathSegments p = filter (\<lambda>s. s \<noteq> []) (str_split CHR ''/'' p)"

fun dropCommonSegments :: "string list \<Rightarrow> string list \<Rightarrow> string list \<times> string list" where
  "dropCommonSegments (x # xs) (y # ys) =
     (if x = y then dropCommonSegments xs ys else (x # xs, y # ys))"
| "dropCommonSegments xs ys = (xs, ys)"

definition posix_relative :: "string \<Rightarrow> string \<Rightarrow> string \<Rightarrow> string" where
  "posix_relative cwd from to =
     (if from = to then []
      else let f = posix_resolve cwd [from]; t = posix_resolve cwd [to]
           in if f = t then []
              else (case dropCommonSegments (pathSegments f) (pathSegments t) of
                      (fr, tr) \<Rightarrow> str_join ''/'' (replicate (length fr) ''..'' @ tr)))"

definition posix_basename :: "string \<Rightarrow> string" where
  "posix_basename p = (case pathSegments p of [] \<Rightarrow> [] | s # ss \<Rightarrow> last (s # ss))"

section \<open>The local filesystem\<close>

text \<open>
  The scanner probes the filesystem of the host through \<open>fs.existsSync\<close>,
  \<open>fs.statSync(p).isDirectory()\<close> and \<open>fs.readdirSync\<close>. The state of the
  filesystem is a parameter of the model: one oracle per call, \<open>Inl\<close> carrying the
  system error code (\<open>ENOENT\<close>, \<open>ENOTDIR\<close>, \<open>EACCES\<close>, ...) when the call throws.
  \<open>existsSync\<close> never throws. \<open>process_cwd\<close> is the working directory that
  \<open>path.resolve\<close> falls back to.
\<close>

record filesystem =
  existsSync :: "string \<Rightarrow> bool"
  statSync_isDirectory :: "string \<Rightarrow> string + bool"
  readdirSync :: "string \<Rightarrow> string + string list"
  process_cwd :: string

text \<open>
  The filesystem calls are the only statements of \<open>processPhpstanOutput\<close> that
  throw, so what it throws is a filesystem error, identified by its code.
\<close>

type_synonym fs_error = string

section \<open>\<open>findFileInWorkspace\<close>\<close>

text \<open>
  The inner \<open>for (const file of files)\<close> loop of one directory: directories are pushed
  on the stack (\<open>push\<close> appends at the end), the first plain file with the wanted name
  ends the search.
\<close>

datatype scan_result = Found string | Continue "string list" | Threw fs_error

fun scanFiles :: "filesystem \<Rightarrow> string \<Rightarrow> string \<Rightarrow> string list \<Rightarrow> string list \<Rightarrow> scan_result" where
  "scanFiles fs dir fileName [] stack = Continue stack"
| "scanFiles fs dir fileName (file # files) stack =
     (let fullPath = posix_join [dir, file] in
      case statSync_isDirectory fs fullPath of
        Inl c \<Rightarrow> Threw c
      | Inr isDir \<Rightarrow>
          if isDir then scanFiles fs dir fileName files (stack @ [fullPath])
          else if file = fileName then Found fullPath
          else scanFiles fs dir fileName files stack)"

text \<open>
  The \<open>while (stack.length)\<close> loop; \<open>pop\<close> takes the last element. On a directory
  structure that never ends the loop does not return: the value \<open>None\<close>.
\<close>

partial_function (option) searchStack ::
  "filesystem \<Rightarrow> string \<Rightarrow> string list \<Rightarrow> (fs_error + string option) option" where
  "searchStack fs fileName stack =
     (if stack = [] then Some (Inr None)
      else if last stack = [] then searchStack fs fileName (butlast stack)
      else (case readdirSync fs (last stack) of
              Inl c \<Rightarrow> Some (Inl c)
            | Inr files \<Rightarrow>
                (case scanFiles fs (last stack) fileName files (butlast stack) of
                   Threw e \<Rightarrow> Some (Inl e)
                 | Found p \<Rightarrow> Some (Inr (Some p))
                 | Continue stack' \<Rightarrow> searchStack fs fileName stack')))"

declare searchStack.simps [code]

definition findFileInWorkspace ::
  "filesystem \<Rightarrow> string \<Rightarrow> string \<Rightarrow> string option \<Rightarrow> (fs_error + string option) option" where
  "findFileInWorkspace fs root fileName searchDir =
     (case searchDir of
        None \<Rightarrow> searchStack fs fileName [root]
      | Some d \<Rightarrow>
          if d \<noteq> [] \<and> existsSync fs d then
            (case statSync_isDirectory fs d of
               Inl c \<Rightarrow> Some (Inl c)
             | Inr isDir \<Rightarrow> searchStack fs fileName [if isDir then d else root])
          else searchStack fs fileName [root])"

section \<open>Diagnostics\<close>

text \<open>
  \<open>new vscode.Diagnostic(new vscode.Range(l, 0, l, 1000), message, Warning)\<close> with its
  \<open>source\<close> set afterwards. The line number is \<open>parseInt(...) - 1\<close>; it is exact for
  every integer a double holds exactly, and integers beyond that are outside the model.
\<close>

datatype severity = SeverityError | SeverityWarning | SeverityInformation | SeverityHint

record diagnostic =
  diag_startLine :: int
  diag_startCharacter :: int
  diag_endLine :: int
  diag_endCharacter :: int
  diag_message :: string
  diag_severity :: severity
  diag_source :: string

definition newDiagnostic :: "int \<Rightarrow> string \<Rightarrow> diagnostic" where
  "newDiagnostic lineNumber message =
     \<lparr> diag_startLine = lineNumber, diag_startCharacter = 0,
       diag_endLine = lineNumber, diag_endCharacter = 1000,
       diag_message = message, diag_severity = SeverityWarning,
       diag_source = ''PHPStan'' \<rparr>"

text \<open>
  The object \<open>diagnostics\<close> keeps its keys in the order of their first insertion
  (\<open>Object.entries\<close> walks them so): an association list. \<open>pushDiagnostic\<close> is
  \<open>if (!diagnostics[f]) diagnostics[f] = []; diagnostics[f].push(d)\<close>. The keys are
  paths (absolute, or ending in \<open>.php\<close>), so none of them is the name of a property
  that the object inherits or an array index.
\<close>

type_synonym diagnostic_set = "(string \<times> diagnostic list) list"

fun pushDiagnostic :: "string \<Rightarrow> diagnostic \<Rightarrow> diagnostic_set \<Rightarrow> diagnostic_set" where
  "pushDiagnostic f d [] = [(f, [d])]"
| "pushDiagnostic f d ((k, ds) # rest) =
     (if k = f then (k, ds @ [d]) # rest else (k, ds) # pushDiagnostic f d rest)"

section \<open>\<open>processPhpstanOutput\<close>\<close>

definition knownFilePath :: "filesystem \<Rightarrow> string option \<Rightarrow> string option" where
  "knownFilePath fs targetPath =
     (case targetPath of
        None \<Rightarrow> None
      | Some t \<Rightarrow> if t \<noteq> [] \<and> str_endsWith t ''.php'' \<and> existsSync fs t then Some t else None)"

text \<open>\<open>s.replace(/^\//, '')\<close>: one leading slash is removed.\<close>

fun stripLeadingSlash :: "string \<Rightarrow> string" where
  "stripLeadingSlash [] = []"
| "stripLeadingSlash (c # cs) = (if c = CHR ''/'' then cs else c # cs)"

text \<open>
  The resolution of a file token when no known file path is set: the token itself when
  it is absolute and exists, otherwise the token (without the remote working directory
  when it starts with it) resolved against the workspace root, otherwise the first file
  of that base name found by \<open>findFileInWorkspace\<close>, otherwise the resolved path
  although it does not exist.
\<close>

definition resolveContainerPath ::
  "filesystem \<Rightarrow> string \<Rightarrow> string \<Rightarrow> string option \<Rightarrow> string \<Rightarrow> (fs_error + string) option" where
  "resolveContainerPath fs workspaceRoot workDirectory targetPath containerFilePath =
     (if posix_isAbsolute containerFilePath \<and> existsSync fs containerFilePath
      then Some (Inr containerFilePath)
      else let resolvedPath =
                 (if str_startsWith containerFilePath workDirectory
                  then posix_resolve (process_cwd fs)
                         [workspaceRoot,
                          stripLeadingSlash (drop (length workDirectory) containerFilePath)]
                  else posix_resolve (process_cwd fs) [workspaceRoot, containerFilePath])
           in if existsSync fs resolvedPath then Some (Inr resolvedPath)
              else (case findFileInWorkspace fs workspaceRoot
                           (posix_basename containerFilePath) targetPath of
                      None \<Rightarrow> None
                    | Some (Inl e) \<Rightarrow> Some (Inl e)
                    | Some (Inr None) \<Rightarrow> Some (Inr resolvedPath)
                    | Some (Inr (Some found)) \<Rightarrow>
                        Some (Inr (if found \<noteq> [] then found else resolvedPath))))"

definition resolveFilePath ::
  "filesystem \<Rightarrow> string \<Rightarrow> string \<Rightarrow> string option \<Rightarrow> string option \<Rightarrow> string
     \<Rightarrow> (fs_error + string) option" where
  "resolveFilePath fs workspaceRoot workDirectory targetPath known containerFilePath =
     (case known of
        None \<Rightarrow> resolveContainerPath fs workspaceRoot workDirectory targetPath containerFilePath
      | Some k \<Rightarrow>
          if k \<noteq> [] then Some (Inr k)
          else resolveContainerPath fs workspaceRoot workDirectory targetPath containerFilePath)"

record scan_state =
  diagnostics :: diagnostic_set
  currentFile :: string

text \<open>The separator test of the loop, as it is written: both conjuncts are the same.\<close>

definition isSeparatorLine :: "string \<Rightarrow> bool" where
  "isSeparatorLine line = (str_includes line ''------'' \<and> str_includes line ''------'')"

text \<open>The body of \<open>for (const line of lines)\<close>.\<close>

definition processLine ::
  "filesystem \<Rightarrow> string \<Rightarrow> string \<Rightarrow> string option \<Rightarrow> string option \<Rightarrow> scan_state \<Rightarrow> string
     \<Rightarrow> (fs_error + scan_state) option" where
  "processLine fs workspaceRoot workDirectory targetPath known st line =
     (if str_trim line = [] then Some (Inr st)
      else if isSeparatorLine line then Some (Inr st)
      else (case errorMatch line of
              Some (g1, g2) \<Rightarrow>
                (let lineNumber = int (parseInt g1) - 1;
                     message = str_trim g2
                 in if currentFile st \<noteq> [] \<and> lineNumber \<ge> 0
                    then Some (Inr (st\<lparr>diagnostics :=
                           pushDiagnostic (currentFile st) (newDiagnostic lineNumber message)
                             (diagnostics st)\<rparr>))
                    else Some (Inr st))
            | None \<Rightarrow>
                if str_includes line ''.php'' then
                  (case fileMatch line of
                     None \<Rightarrow> Some (Inr st)
                   | Some containerFilePath \<Rightarrow>
                       (case resolveFilePath fs workspaceRoot workDirectory targetPath known
                               containerFilePath of
                          None \<Rightarrow> None
                        | Some (Inl e) \<Rightarrow> Some (Inl e)
                        | Some (Inr resolvedPath) \<Rightarrow>
                            Some (Inr (st\<lparr>currentFile := resolvedPath\<rparr>))))
                else Some (Inr st)))"

fun scanLines ::
  "filesystem \<Rightarrow> string \<Rightarrow> string \<Rightarrow> string option \<Rightarrow> string option \<Rightarrow> scan_state
     \<Rightarrow> string list \<Rightarrow> (fs_error + scan_state) option" where
  "scanLines fs workspaceRoot workDirectory targetPath known st [] = Some (Inr st)"
| "scanLines fs workspaceRoot workDirectory targetPath known st (line # lines) =
     (case processLine fs workspaceRoot workDirectory targetPath known st line of
        None \<Rightarrow> None
      | Some (Inl e) \<Rightarrow> Some (Inl e)
      | Some (Inr st') \<Rightarrow> scanLines fs workspaceRoot workDirectory targetPath known st' lines)"

text \<open>
  The summary shown to the user: a warning with the counts, or the information that
  nothing was found. \<open>CHR 0xF3\<close> is the letter o with an acute accent.
\<close>

datatype user_message = ShowWarningMessage string | ShowInformationMessage string

definition summaryMessage :: "diagnostic_set \<Rightarrow> user_message" where
  "summaryMessage ds =
     (let totalErrors = foldl (\<lambda>sum diags. sum + length diags) 0 (map snd ds)
      in if totalErrors > 0
         then ShowWarningMessage
                (''PHPStan encontr'' @ [CHR 0xF3] @ '' '' @ showNat totalErrors
                 @ '' problemas en '' @ showNat (length ds) @ '' archivos'')
         else ShowInformationMessage (''PHPStan no encontr'' @ [CHR 0xF3] @ '' problemas''))"

text \<open>
  What one call leaves behind: the entries set on the diagnostic collection, in order,
  and the message shown. \<open>stderr\<close> only goes to the console.
\<close>

record interpreted =
  applied :: diagnostic_set
  shown :: user_message

definition processPhpstanOutput ::
  "filesystem \<Rightarrow> string \<Rightarrow> string \<Rightarrow> string \<Rightarrow> string \<Rightarrow> string option
     \<Rightarrow> (fs_error + interpreted) option" where
  "processPhpstanOutput fs stdout stderr workspaceRoot workDirectory targetPath =
     (case scanLines fs workspaceRoot workDirectory targetPath (knownFilePath fs targetPath)
             \<lparr>diagnostics = [], currentFile = []\<rparr> (str_split CHR 0x0A stdout) of
        None \<Rightarrow> None
      | Some (Inl e) \<Rightarrow> Some (Inl e)
      | Some (Inr st) \<Rightarrow>
          Some (Inr \<lparr>applied = diagnostics st, shown = summaryMessage (diagnostics st)\<rparr>))"

section \<open>\<open>runPhpstan\<close>\<close>

record config =
  cfg_containerName :: string
  cfg_workDirectory :: string
  cfg_configFile :: string
  cfg_level :: string
  cfg_phpstanPath :: string

text \<open>\<open>path.join(workDirectory, path.relative(workspaceRoot, targetPath)).replace(/\\/g, '/')\<close>\<close>

definition containerPath :: "string \<Rightarrow> string \<Rightarrow> string \<Rightarrow> string \<Rightarrow> string" where
  "containerPath cwd workspaceRoot workDirectory targetPath =
     map (\<lambda>c. if c = CHR 0x5C then CHR ''/'' else c)
       (posix_join [workDirectory, posix_relative cwd workspaceRoot targetPath])"

definition pathArgument :: "string \<Rightarrow> string \<Rightarrow> string \<Rightarrow> string option \<Rightarrow> string" where
  "pathArgument cwd workspaceRoot workDirectory targetPath =
     (case targetPath of
        None \<Rightarrow> workDirectory
      | Some t \<Rightarrow> if t \<noteq> [] then containerPath cwd workspaceRoot workDirectory t
                 else workDirectory)"

definition phpstanCommand :: "filesystem \<Rightarrow> config \<Rightarrow> string \<Rightarrow> string option \<Rightarrow> string" where
  "phpstanCommand fs cfg workspaceRoot targetPath =
     cfg_phpstanPath cfg @ '' analyse --level='' @ cfg_level cfg
     @ (if cfg_configFile cfg \<noteq> [] \<and> existsSync fs (posix_join [workspaceRoot, cfg_configFile cfg])
        then '' --configuration='' @ cfg_configFile cfg else [])
     @ '' '' @ pathArgument (process_cwd fs) workspaceRoot (cfg_workDirectory cfg) targetPath"


text \<open>
  What a \<open>throw\<close> carries inside \<open>runPhpstan\<close>: the rejection of \<open>execAsync\<close> (its
  \<open>code\<close>, \<open>stdout\<close> and \<open>stderr\<close> properties, \<open>None\<close> for \<open>undefined\<close>; the
  code is the exit code of the process, a string for a system error, or absent when
  the process was killed at the timeout) or a filesystem error thrown by
  \<open>processPhpstanOutput\<close>, whose \<open>code\<close> is a string.
\<close>

datatype error_code = ExitCode int | SystemCode string | NoCode

datatype thrown =
    ExecError error_code "string option" "string option"
  | FsError fs_error

fun thrown_code :: "thrown \<Rightarrow> error_code" where
  "thrown_code (ExecError c out err) = c"
| "thrown_code (FsError c) = SystemCode c"

fun thrown_stdout :: "thrown \<Rightarrow> string option" where
  "thrown_stdout (ExecError c out err) = out"
| "thrown_stdout (FsError c) = None"

fun thrown_stderr :: "thrown \<Rightarrow> string option" where
  "thrown_stderr (ExecError c out err) = err"
| "thrown_stderr (FsError c) = None"

text \<open>
  \<open>execAsync\<close> resolves with the captured standard output and standard error, or
  rejects. The \<open>catch\<close> block parses the output carried by an error of code 1 and
  throws every other error again; it also catches what \<open>processPhpstanOutput\<close>
  throws inside the \<open>try\<close> block.
\<close>

datatype exec_result = Resolved string string | Rejected thrown

definition orEmpty :: "string option \<Rightarrow> string" where
  "orEmpty v = (case v of None \<Rightarrow> [] | Some s \<Rightarrow> s)"

definition catchBlock ::
  "filesystem \<Rightarrow> string \<Rightarrow> string \<Rightarrow> string option \<Rightarrow> thrown \<Rightarrow> (thrown + interpreted) option" where
  "catchBlock fs workspaceRoot workDirectory targetPath error =
     (if thrown_code error = ExitCode 1
      then (case processPhpstanOutput fs (orEmpty (thrown_stdout error))
                   (orEmpty (thrown_stderr error)) workspaceRoot workDirectory targetPath of
              None \<Rightarrow> None
            | Some (Inl c) \<Rightarrow> Some (Inl (FsError c))
            | Some (Inr res) \<Rightarrow> Some (Inr res))
      else Some (Inl error))"

definition tryBlock ::
  "filesystem \<Rightarrow> string \<Rightarrow> string \<Rightarrow> string option \<Rightarrow> exec_result \<Rightarrow> (thrown + interpreted) option" where
  "tryBlock fs workspaceRoot workDirectory targetPath r =
     (case r of
        Resolved stdout stderr \<Rightarrow>
          (case processPhpstanOutput fs stdout stderr workspaceRoot workDirectory targetPath of
             None \<Rightarrow> None
           | Some (Inl c) \<Rightarrow> catchBlock fs workspaceRoot workDirectory targetPath (FsError c)
           | Some (Inr res) \<Rightarrow> Some (Inr res))
      | Rejected error \<Rightarrow> catchBlock fs workspaceRoot workDirectory targetPath error)"



section \<open>Reference notions and sample hosts\<close>

text \<open>
  A line is a recognised file header when the loop body reaches the assignment of
  \<open>currentFile\<close>: it is not blank, not a separator, not a diagnostic row, it
  contains \<open>.php\<close> and the file pattern matches.
\<close>

definition isFileHeaderLine :: "string \<Rightarrow> bool" where
  "isFileHeaderLine line =
     (str_trim line \<noteq> [] \<and> \<not> isSeparatorLine line \<and> errorMatch line = None
      \<and> str_includes line ''.php'' \<and> fileMatch line \<noteq> None)"


text \<open>
  A host whose workspace \<open>/ws\<close> holds the single file \<open>src/Foo.php\<close>, and the same
  workspace after the file has moved to \<open>lib/Foo.php\<close>.
\<close>

definition fs_example :: filesystem where
  "fs_example =
     \<lparr> existsSync = (\<lambda>p. p \<in> set [''/ws'', ''/ws/src'', ''/ws/src/Foo.php'']),
       statSync_isDirectory =
         (\<lambda>p. if p \<in> set [''/ws'', ''/ws/src''] then Inr True
              else if p = ''/ws/src/Foo.php'' then Inr False else Inl ''ENOENT''),
       readdirSync =
         (\<lambda>p. if p = ''/ws'' then Inr [''src'']
              else if p = ''/ws/src'' then Inr [''Foo.php''] else Inl ''ENOENT''),
       process_cwd = ''/'' \<rparr>"


section \<open>Substrings\<close>

lemma str_trim_Nil [simp]: "str_trim [] = []"
  by (simp add: str_trim_def)



section \<open>The matchers and the languages of the patterns\<close>

text \<open>
  The two matchers are checked against the languages of their patterns.
  \<open>errorMatch\<close> succeeds exactly on the lines made of white space, a non-empty run
  of digits, a non-empty run of white space and a non-empty text without line
  terminator; group 1 is the run of digits. \<open>fileMatch\<close> succeeds exactly on the
  lines holding a non-empty run of non-space characters followed by \<open>.php\<close>, and
  its result is such a token of the line.
\<close>

lemma digit_not_space: "isDigit c \<Longrightarrow> \<not> isWhiteSpace c"
  by (auto simp: isDigit_def isWhiteSpace_def)

lemma take_within_run:
  assumes "k \<le> length (takeWhile P xs)"
  shows "take k xs = take k (takeWhile P xs)"
proof -
  have "take k xs = take k (takeWhile P xs @ dropWhile P xs)" by simp
  also have "\<dots> = take k (takeWhile P xs)" using assms by (simp del: takeWhile_dropWhile_id)
  finally show ?thesis .
qed

lemma take_run_all: "list_all P (take k (takeWhile P xs))"
  by (auto simp: list_all_iff dest!: in_set_takeD set_takeWhileD)

lemma errorMatch_rest_Some:
  assumes "errorMatch_rest n s = Some g"
  shows "\<exists>k. 0 < k \<and> k \<le> n \<and> g = drop k s \<and> g \<noteq> [] \<and> \<not> list_ex isLineTerminator g"
  using assms
proof (induction n)
  case 0
  then show ?case by simp
next
  case (Suc n)
  show ?case
  proof (cases "drop (Suc n) s \<noteq> [] \<and> \<not> list_ex isLineTerminator (drop (Suc n) s)")
    case True
    with Suc.prems have "g = drop (Suc n) s" by (simp add: Let_def)
    with True show ?thesis by (intro exI [of _ "Suc n"]) simp
  next
    case False
    with Suc.prems have "errorMatch_rest n s = Some g" by (auto simp: Let_def)
    from Suc.IH [OF this] obtain k
      where "0 < k" "k \<le> n" "g = drop k s" "g \<noteq> []" "\<not> list_ex isLineTerminator g"
      by blast
    then show ?thesis by (intro exI [of _ k]) simp
  qed
qed

lemma errorMatch_rest_None:
  assumes "errorMatch_rest n s = None" and "0 < k" and "k \<le> n"
  shows "drop k s = [] \<or> list_ex isLineTerminator (drop k s)"
  using assms
proof (induction n)
  case 0
  then show ?case by simp
next
  case (Suc n)
  from Suc.prems(1) have here: "drop (Suc n) s = [] \<or> list_ex isLineTerminator (drop (Suc n) s)"
    and rest: "errorMatch_rest n s = None"
    by (auto simp: Let_def split: if_splits)
  show ?case
  proof (cases "k = Suc n")
    case True
    with here show ?thesis by simp
  next
    case False
    with Suc.prems have "k \<le> n" by simp
    from Suc.IH [OF rest Suc.prems(2) this] show ?thesis .
  qed
qed

lemma errorMatch_sound:
  assumes "errorMatch line = Some (g1, g2)"
  shows "\<exists>a b. line = a @ g1 @ b @ g2 \<and> list_all isWhiteSpace a
           \<and> g1 \<noteq> [] \<and> list_all isDigit g1
           \<and> b \<noteq> [] \<and> list_all isWhiteSpace b
           \<and> g2 \<noteq> [] \<and> \<not> list_ex isLineTerminator g2"
proof -
  let ?s1 = "dropWhile isWhiteSpace line"
  let ?s2 = "dropWhile isDigit ?s1"
  let ?w = "takeWhile isWhiteSpace ?s2"
  from assms have g1: "g1 = takeWhile isDigit ?s1" and ne: "g1 \<noteq> []"
    and r: "errorMatch_rest (length ?w) ?s2 = Some g2"
    by (auto simp: errorMatch_def Let_def split: if_splits option.splits)
  from errorMatch_rest_Some [OF r] obtain k
    where k: "0 < k" "k \<le> length ?w" "g2 = drop k ?s2" "g2 \<noteq> []" "\<not> list_ex isLineTerminator g2"
    by blast
  have tk: "take k ?s2 = take k ?w"
    using k(2) by (rule take_within_run)
  have "line = takeWhile isWhiteSpace line @ ?s1" by simp
  also have "?s1 = g1 @ ?s2" by (simp add: g1)
  also have "?s2 = take k ?s2 @ g2" by (simp add: k(3))
  finally have "line = takeWhile isWhiteSpace line @ g1 @ take k ?s2 @ g2" .
  moreover have "list_all isWhiteSpace (takeWhile isWhiteSpace line)"
    by (simp add: list_all_iff) (meson set_takeWhileD)
  moreover have "list_all isDigit g1"
    unfolding g1 by (simp add: list_all_iff) (meson set_takeWhileD)
  moreover have "list_all isWhiteSpace (take k ?s2)"
    unfolding tk by (rule take_run_all)
  moreover have "take k ?s2 \<noteq> []"
  proof -
    from k(3,4) have "?s2 \<noteq> []" by (metis drop_Nil)
    with k(1) show ?thesis by (simp add: take_eq_Nil)
  qed
  ultimately show ?thesis using ne k(4,5) by blast
qed

lemma errorMatch_complete:
  assumes "line = a @ d @ b @ m" and "list_all isWhiteSpace a"
    and "d \<noteq> []" and "list_all isDigit d"
    and "b \<noteq> []" and "list_all isWhiteSpace b"
    and "m \<noteq> []" and "\<not> list_ex isLineTerminator m"
  shows "\<exists>g2. errorMatch line = Some (d, g2)"
proof -
  obtain d0 d' where d: "d = d0 # d'" using assms(3) by (cases d) auto
  obtain b0 b' where b: "b = b0 # b'" using assms(5) by (cases b) auto
  from assms(4) d have dd: "isDigit d0" by simp
  from assms(6) b have bw: "isWhiteSpace b0" by simp
  have s1: "dropWhile isWhiteSpace line = d @ b @ m"
    using assms(1,2) dd d digit_not_space by (simp add: list_all_iff dropWhile_append2)
  have "\<not> isDigit b0" using bw digit_not_space by blast
  then have g1: "takeWhile isDigit (d @ b @ m) = d" and s2: "dropWhile isDigit (d @ b @ m) = b @ m"
    using assms(4) b by (simp_all add: list_all_iff takeWhile_append2 dropWhile_append2)
  let ?w = "takeWhile isWhiteSpace (b @ m)"
  have len: "length b \<le> length ?w"
    using assms(6) by (simp add: list_all_iff takeWhile_append2)
  have "errorMatch_rest (length ?w) (b @ m) \<noteq> None"
  proof
    assume "errorMatch_rest (length ?w) (b @ m) = None"
    from errorMatch_rest_None [OF this _ len] assms(5,7,8) show False by simp
  qed
  then obtain g2 where "errorMatch_rest (length ?w) (b @ m) = Some g2" by blast
  then have "errorMatch line = Some (d, g2)"
    using assms(3) by (simp add: errorMatch_def s1 g1 s2)
  then show ?thesis ..
qed

lemma fileMatch_at_Some:
  assumes "fileMatch_at n s = Some t"
  shows "\<exists>k. 0 < k \<and> k \<le> n \<and> t = take k s @ ''.php'' \<and> take (k + 4) s = t"
  using assms
proof (induction n)
  case 0
  then show ?case by simp
next
  case (Suc n)
  show ?case
  proof (cases "take 4 (drop (Suc n) s) = ''.php''")
    case True
    with Suc.prems have t: "t = take (Suc n + 4) s" by simp
    have "take (Suc n + 4) s = take (Suc n) s @ take 4 (drop (Suc n) s)"
      by (simp only: take_add)
    with True t show ?thesis by (intro exI [of _ "Suc n"]) simp
  next
    case False
    with Suc.prems have "fileMatch_at n s = Some t" by simp
    from Suc.IH [OF this] obtain k
      where "0 < k" "k \<le> n" "t = take k s @ ''.php''" "take (k + 4) s = t" by blast
    then show ?thesis by (intro exI [of _ k]) simp
  qed
qed

lemma fileMatch_at_None:
  assumes "fileMatch_at n s = None" and "0 < k" and "k \<le> n"
  shows "take 4 (drop k s) \<noteq> ''.php''"
  using assms
proof (induction n)
  case 0
  then show ?case by simp
next
  case (Suc n)
  from Suc.prems(1) have here: "take 4 (drop (Suc n) s) \<noteq> ''.php''"
    and rest: "fileMatch_at n s = None"
    by (auto split: if_splits)
  show ?case
  proof (cases "k = Suc n")
    case True
    with here show ?thesis by simp
  next
    case False
    with Suc.prems have "k \<le> n" by simp
    from Suc.IH [OF rest Suc.prems(2) this] show ?thesis .
  qed
qed

lemma fileMatch_sound:
  assumes "fileMatch line = Some t"
  shows "\<exists>a x b. line = a @ t @ b \<and> t = x @ ''.php'' \<and> x \<noteq> []
           \<and> list_all (\<lambda>c. \<not> isWhiteSpace c) x"
  using assms
proof (induction line)
  case Nil
  then show ?case by simp
next
  case (Cons c cs)
  let ?s = "c # cs"
  let ?run = "takeWhile (\<lambda>x. \<not> isWhiteSpace x) ?s"
  show ?case
  proof (cases "fileMatch_at (length ?run) ?s")
    case None
    with Cons.prems have "fileMatch cs = Some t" by simp
    from Cons.IH [OF this] obtain a x b
      where "cs = a @ t @ b" "t = x @ ''.php''" "x \<noteq> []" "list_all (\<lambda>c. \<not> isWhiteSpace c) x"
      by blast
    then have "c # cs = (c # a) @ t @ b" by simp
    with \<open>t = x @ ''.php''\<close> \<open>x \<noteq> []\<close> \<open>list_all (\<lambda>c. \<not> isWhiteSpace c) x\<close>
    show ?thesis by blast
  next
    case (Some u)
    with Cons.prems have "u = t" by simp
    with Some fileMatch_at_Some obtain k
      where k: "0 < k" "k \<le> length ?run" "t = take k ?s @ ''.php''" "take (k + 4) ?s = t"
      by blast
    have "take k ?s = take k ?run"
      using k(2) by (rule take_within_run)
    then have "list_all (\<lambda>c. \<not> isWhiteSpace c) (take k ?s)"
      by (simp only: take_run_all)
    moreover have "take k ?s \<noteq> []" using k(1) by simp
    moreover have "?s = [] @ t @ drop (k + 4) ?s"
      using k(4) by (metis append_Nil append_take_drop_id)
    ultimately show ?thesis using k(3) by blast
  qed
qed

lemma fileMatch_suffix:
  assumes "fileMatch s \<noteq> None"
  shows "fileMatch (a @ s) \<noteq> None"
  using assms by (induction a) (auto split: option.splits)

lemma fileMatch_complete:
  assumes "line = a @ x @ ''.php'' @ b" and "x \<noteq> []" and "list_all (\<lambda>c. \<not> isWhiteSpace c) x"
  shows "fileMatch line \<noteq> None"
proof -
  let ?s = "x @ ''.php'' @ b"
  let ?run = "takeWhile (\<lambda>c. \<not> isWhiteSpace c) ?s"
  obtain x0 x' where x: "x = x0 # x'" using assms(2) by (cases x) auto
  have len: "length x \<le> length ?run"
    using assms(3) by (simp add: list_all_iff takeWhile_append2)
  have "fileMatch_at (length ?run) ?s \<noteq> None"
  proof
    assume "fileMatch_at (length ?run) ?s = None"
    from fileMatch_at_None [OF this _ len] assms(2) show False by simp
  qed
  then have "fileMatch ?s \<noteq> None"
    unfolding x by (auto split: option.splits)
  from fileMatch_suffix [OF this] show ?thesis by (simp add: assms(1))
qed

section \<open>The separator rule\<close>




section \<open>Rows before any file header\<close>

lemma processLine_no_header_no_file:
  assumes "\<not> isFileHeaderLine line" and "currentFile st = []"
  shows "processLine fs workspaceRoot workDirectory targetPath known st line = Some (Inr st)"
  using assms by (auto simp: processLine_def isFileHeaderLine_def split: option.splits)

lemma scanLines_no_header_prefix:
  assumes "\<forall>l \<in> set pre. \<not> isFileHeaderLine l" and "currentFile st = []"
  shows "scanLines fs workspaceRoot workDirectory targetPath known st (pre @ rest)
         = scanLines fs workspaceRoot workDirectory targetPath known st rest"
  using assms by (induction pre) (simp_all add: processLine_no_header_no_file)

text \<open>
  Claim C5. While no file header has been recognised, every line, diagnostic rows
  included, leaves the scanner in its initial state: scanning such a prefix followed
  by the rest of the report is scanning the rest alone. No call can throw or fail to
  return on these lines. A report made of such lines only is interpreted as the empty
  set of diagnostics.
\<close>

theorem orphan_rows_dropped:
  assumes "\<forall>l \<in> set pre. \<not> isFileHeaderLine l"
  shows "scanLines fs workspaceRoot workDirectory targetPath known
           \<lparr>diagnostics = [], currentFile = []\<rparr> (pre @ rest)
         = scanLines fs workspaceRoot workDirectory targetPath known
           \<lparr>diagnostics = [], currentFile = []\<rparr> rest
       \<and> (str_split CHR 0x0A stdout = pre \<longrightarrow>
           processPhpstanOutput fs stdout stderr workspaceRoot workDirectory targetPath
           = Some (Inr \<lparr>applied = [],
                shown = ShowInformationMessage (''PHPStan no encontr'' @ [CHR 0xF3] @ '' problemas'')\<rparr>))"
proof -
  have a: "scanLines fs workspaceRoot workDirectory targetPath k
           \<lparr>diagnostics = [], currentFile = []\<rparr> (pre @ r)
         = scanLines fs workspaceRoot workDirectory targetPath k
           \<lparr>diagnostics = [], currentFile = []\<rparr> r" for k r
    using assms by (simp add: scanLines_no_header_prefix)
  from a [of _ "[]"] have "str_split CHR 0x0A stdout = pre \<Longrightarrow>
      processPhpstanOutput fs stdout stderr workspaceRoot workDirectory targetPath
      = Some (Inr \<lparr>applied = [],
           shown = ShowInformationMessage (''PHPStan no encontr'' @ [CHR 0xF3] @ '' problemas'')\<rparr>)"
    by (simp add: processPhpstanOutput_def summaryMessage_def)
  with a show ?thesis by blast
qed

theorem orphan_rows_dropped_witness:
  "\<not> isFileHeaderLine ''  12   Orphan row''
   \<and> \<not> isFileHeaderLine ''Note: using configuration file''
   \<and> scanLines fs_example ''/ws'' ''/var/www/html'' None None
        \<lparr>diagnostics = [], currentFile = []\<rparr>
        ([''  12   Orphan row'', ''Note: using configuration file'']
          @ [''  Line   src/Foo.php'', ''  3   Real row''])
     = Some (Inr \<lparr>diagnostics = [(''/ws/src/Foo.php'', [newDiagnostic 2 ''Real row''])],
                  currentFile = ''/ws/src/Foo.php''\<rparr>)
   \<and> processPhpstanOutput fs_example
        (''  12   Orphan row'' @ [CHR 0x0A] @ ''Note: using configuration file'') []
        ''/ws'' ''/var/www/html'' None
     = Some (Inr \<lparr>applied = [],
          shown = ShowInformationMessage (''PHPStan no encontr'' @ [CHR 0xF3] @ '' problemas'')\<rparr>)"
proof -
  have h: "\<forall>l \<in> set [''  12   Orphan row'', ''Note: using configuration file''].
      \<not> isFileHeaderLine l" by code_simp
  have s: "str_split CHR 0x0A (''  12   Orphan row'' @ [CHR 0x0A] @ ''Note: using configuration file'')
      = [''  12   Orphan row'', ''Note: using configuration file'']" by code_simp
  have r: "scanLines fs_example ''/ws'' ''/var/www/html'' None None
        \<lparr>diagnostics = [], currentFile = []\<rparr> [''  Line   src/Foo.php'', ''  3   Real row'']
     = Some (Inr \<lparr>diagnostics = [(''/ws/src/Foo.php'', [newDiagnostic 2 ''Real row''])],
                  currentFile = ''/ws/src/Foo.php''\<rparr>)" by code_simp
  show ?thesis
    using h s r orphan_rows_dropped [OF h, of fs_example "''/ws''" "''/var/www/html''" None None
        "[''  Line   src/Foo.php'', ''  3   Real row'']"
        "''  12   Orphan row'' @ [CHR 0x0A] @ ''Note: using configuration file''" "[]"]
    by simp
qed

section \<open>Row number zero\<close>

text \<open>
  Claim C9. A diagnostic row whose leading integer is zero leaves the scanner state
  unchanged, whatever the current file is: the line number would be \<open>-1\<close>.
\<close>

theorem zero_line_number_dropped:
  assumes "errorMatch line = Some (g1, g2)" and "parseInt g1 = 0"
  shows "processLine fs workspaceRoot workDirectory targetPath known st line = Some (Inr st)"
  using assms by (simp add: processLine_def)

theorem zero_line_number_dropped_witness:
  "errorMatch ''   0   Ignored row'' = Some (''0'', ''Ignored row'') \<and> parseInt ''0'' = 0
   \<and> processLine fs_example ''/ws'' ''/var/www/html'' None None
        \<lparr>diagnostics = [], currentFile = ''/ws/src/Foo.php''\<rparr> ''   0   Ignored row''
      = Some (Inr \<lparr>diagnostics = [], currentFile = ''/ws/src/Foo.php''\<rparr>)"
proof -
  have h1: "errorMatch ''   0   Ignored row'' = Some (''0'', ''Ignored row'')" by code_simp
  have h2: "parseInt ''0'' = 0" by code_simp
  show ?thesis using h1 h2 zero_line_number_dropped [OF h1 h2] by simp
qed

section \<open>The empty report\<close>

text \<open>
  Claim C8. An empty standard output is interpreted as the empty set of diagnostics
  with the message that no problems were found, and a run that resolves with it
  completes with that result.
\<close>

theorem empty_report_no_problems:
  "processPhpstanOutput fs [] stderr workspaceRoot workDirectory targetPath
     = Some (Inr \<lparr>applied = [],
                  shown = ShowInformationMessage (''PHPStan no encontr'' @ [CHR 0xF3] @ '' problemas'')\<rparr>)
   \<and> tryBlock fs workspaceRoot workDirectory targetPath (Resolved [] stderr)
     = Some (Inr \<lparr>applied = [],
                  shown = ShowInformationMessage (''PHPStan no encontr'' @ [CHR 0xF3] @ '' problemas'')\<rparr>)"
  by (simp add: processPhpstanOutput_def processLine_def summaryMessage_def tryBlock_def)

section \<open>The command line\<close>

text \<open>
  Claim C6. For the file \<open>/ws/src/Foo.php\<close>, the workspace root \<open>/ws\<close> and the
  remote working directory \<open>/var/www/html\<close>, the path argument is
  \<open>/var/www/html/src/Foo.php\<close>, and it is the last argument of the analyser command.
\<close>

theorem remote_path_argument:
  "pathArgument cwd ''/ws'' ''/var/www/html'' (Some ''/ws/src/Foo.php'') = ''/var/www/html/src/Foo.php''
   \<and> phpstanCommand fs (cfg\<lparr>cfg_workDirectory := ''/var/www/html''\<rparr>) ''/ws'' (Some ''/ws/src/Foo.php'')
       = cfg_phpstanPath cfg @ '' analyse --level='' @ cfg_level cfg
         @ (if cfg_configFile cfg \<noteq> [] \<and> existsSync fs (posix_join [''/ws'', cfg_configFile cfg])
            then '' --configuration='' @ cfg_configFile cfg else [])
         @ '' /var/www/html/src/Foo.php''"
  by (simp add: phpstanCommand_def pathArgument_def containerPath_def posix_relative_def posix_resolve_def
      normalizeString_def normalizeString_segment_def pathSegments_def posix_join_def
      posix_normalize_def posix_isAbsolute_def)

section \<open>The exit code of a run that found issues\<close>


section \<open>Analysis of a single known file\<close>








section \<open>When the shortcut of the known file applies\<close>

lemma findFileInWorkspace_missing_dir:
  assumes "\<not> existsSync fs t"
  shows "findFileInWorkspace fs root fileName (Some t) = searchStack fs fileName [root]"
  using assms by (simp add: findFileInWorkspace_def)

text \<open>
  Claim C10. A known file path is set only for a target whose name ends in \<open>.php\<close>
  and which exists. For a target that does not exist no known file path is set, and a
  file token is resolved by the general chain: the token itself when it is absolute and
  exists, otherwise the token, without the remote working directory when it starts with
  it, resolved against the workspace root, otherwise the first file of that base name
  found from the workspace root, otherwise the resolved path.
\<close>

theorem shortcut_only_for_existing_php:
  "(knownFilePath fs targetPath = Some k \<longrightarrow>
      targetPath = Some k \<and> str_endsWith k ''.php'' \<and> existsSync fs k)
   \<and> (\<not> existsSync fs t \<longrightarrow>
        knownFilePath fs (Some t) = None
        \<and> resolveFilePath fs workspaceRoot workDirectory (Some t) (knownFilePath fs (Some t)) token
          = (if posix_isAbsolute token \<and> existsSync fs token then Some (Inr token)
             else let resolvedPath = posix_resolve (process_cwd fs)
                        [workspaceRoot,
                         if str_startsWith token workDirectory
                         then stripLeadingSlash (drop (length workDirectory) token)
                         else token]
                  in if existsSync fs resolvedPath then Some (Inr resolvedPath)
                     else (case searchStack fs (posix_basename token) [workspaceRoot] of
                             None \<Rightarrow> None
                           | Some (Inl e) \<Rightarrow> Some (Inl e)
                           | Some (Inr None) \<Rightarrow> Some (Inr resolvedPath)
                           | Some (Inr (Some found)) \<Rightarrow>
                               Some (Inr (if found \<noteq> [] then found else resolvedPath)))))"
proof -
  have a: "knownFilePath fs targetPath = Some k \<longrightarrow>
      targetPath = Some k \<and> str_endsWith k ''.php'' \<and> existsSync fs k"
    by (auto simp: knownFilePath_def split: option.splits if_splits)
  have b: "\<not> existsSync fs t \<Longrightarrow> knownFilePath fs (Some t) = None"
    by (simp add: knownFilePath_def)
  have c: "\<not> existsSync fs t \<Longrightarrow>
      resolveFilePath fs workspaceRoot workDirectory (Some t) None token
          = (if posix_isAbsolute token \<and> existsSync fs token then Some (Inr token)
             else let resolvedPath = posix_resolve (process_cwd fs)
                        [workspaceRoot,
                         if str_startsWith token workDirectory
                         then stripLeadingSlash (drop (length workDirectory) token)
                         else token]
                  in if existsSync fs resolvedPath then Some (Inr resolvedPath)
                     else (case searchStack fs (posix_basename token) [workspaceRoot] of
                             None \<Rightarrow> None
                           | Some (Inl e) \<Rightarrow> Some (Inl e)
                           | Some (Inr None) \<Rightarrow> Some (Inr resolvedPath)
                           | Some (Inr (Some found)) \<Rightarrow>
                               Some (Inr (if found \<noteq> [] then found else resolvedPath))))"
    by (simp add: resolveFilePath_def resolveContainerPath_def findFileInWorkspace_missing_dir Let_def)
  from a b c show ?thesis by simp
qed


theorem shortcut_only_for_existing_php_witness:
  "knownFilePath fs_example (Some ''/ws/src/Foo.php'') = Some ''/ws/src/Foo.php''
   \<and> str_endsWith ''/ws/src/Foo.php'' ''.php'' \<and> existsSync fs_example ''/ws/src/Foo.php''
   \<and> \<not> existsSync fs_example ''/ws/src/Gone.php''
   \<and> knownFilePath fs_example (Some ''/ws/src/Gone.php'') = None
   \<and> resolveFilePath fs_example ''/ws'' ''/var/www/html'' (Some ''/ws/src/Gone.php'')
        (knownFilePath fs_example (Some ''/ws/src/Gone.php'')) ''/var/www/html/lib/Foo.php''
      = Some (Inr ''/ws/src/Foo.php'')
   \<and> searchStack fs_example (posix_basename ''/var/www/html/lib/Foo.php'') [''/ws'']
      = Some (Inr (Some ''/ws/src/Foo.php''))"
proof -
  have h1: "knownFilePath fs_example (Some ''/ws/src/Foo.php'') = Some ''/ws/src/Foo.php''"
    by code_simp
  have h2: "\<not> existsSync fs_example ''/ws/src/Gone.php''" by code_simp
  have h3: "searchStack fs_example (posix_basename ''/var/www/html/lib/Foo.php'') [''/ws'']
      = Some (Inr (Some ''/ws/src/Foo.php''))" by code_simp
  have h4: "\<not> existsSync fs_example ''/var/www/html/lib/Foo.php''" by code_simp
  have h5: "posix_resolve (process_cwd fs_example) [''/ws'', ''lib/Foo.php''] = ''/ws/lib/Foo.php''"
    by code_simp
  have h6: "\<not> existsSync fs_example ''/ws/lib/Foo.php''" by code_simp
  have h7: "str_startsWith ''/var/www/html/lib/Foo.php'' ''/var/www/html''" by code_simp
  note t = shortcut_only_for_existing_php [of fs_example "Some ''/ws/src/Foo.php''"
      "''/ws/src/Foo.php''" "''/ws/src/Gone.php''" "''/ws''" "''/var/www/html''"
      "''/var/www/html/lib/Foo.php''"]
  show ?thesis using t h1 h2 h3 h4 h5 h6 h7 by auto
qed

section \<open>What the interpretation depends on\<close>





section \<open>Keys and order of the diagnostic set\<close>















end
